theory Spec2Isabelle
  imports Main
begin

section \<open>MultiProfile backend: data model\<close>

text \<open>
  The program is an Express application (src/index.js) in front of a Supabase store.
  Its handlers are embedded as functions over an explicit store; what the program reads
  from its surroundings (the clock, the UUID generator, the hash computation behind the
  password check, the conversion of a value to text) is a parameter of the function that
  reads it. The checks that the two libraries make on
  their arguments before anything else, \<open>createClient\<close> of supabase-js and
  \<open>compare\<close> of bcryptjs, are written out.
\<close>

subsection \<open>JSON values and HTTP responses\<close>

datatype json =
    JNull
  | JBool bool
  | JNum int
  | JStr string
  | JArr "json list"
  | JObj "(string \<times> json) list"

text \<open>\<open>res.status(n).json(v)\<close>; a bare \<open>res.json(v)\<close> answers with status 200.\<close>

record response =
  status :: nat
  body :: json

text \<open>
  The messages of the source, as the UTF-8 bytes that go on the wire
  (\<open>0xC3 0xA1\<close> is a-acute, \<open>0xC3 0xA3\<close> a-tilde, \<open>0xC3 0xB3\<close> o-acute,
  \<open>0xC3 0xA7\<close> c-cedilla).
\<close>

definition msg_token_required :: string where
  "msg_token_required = ''Token de acesso necess'' @ [CHR 0xC3, CHR 0xA1] @ ''rio''"

definition msg_token_invalid_or_expired :: string where
  "msg_token_invalid_or_expired = ''Token inv'' @ [CHR 0xC3, CHR 0xA1] @ ''lido ou expirado''"

definition msg_token_invalid :: string where
  "msg_token_invalid = ''Token inv'' @ [CHR 0xC3, CHR 0xA1] @ ''lido''"

definition msg_fields_required :: string where
  "msg_fields_required =
     ''Email e senha s'' @ [CHR 0xC3, CHR 0xA3] @ ''o obrigat'' @ [CHR 0xC3, CHR 0xB3] @ ''rios''"

definition msg_invalid_credentials :: string where
  "msg_invalid_credentials = ''Credenciais inv'' @ [CHR 0xC3, CHR 0xA1] @ ''lidas''"

definition msg_session_create :: string where
  "msg_session_create = ''Erro ao criar sess'' @ [CHR 0xC3, CHR 0xA3] @ ''o''"

definition msg_services_fetch :: string where
  "msg_services_fetch = ''Erro ao buscar servi'' @ [CHR 0xC3, CHR 0xA7] @ ''os''"

definition msg_internal :: string where
  "msg_internal = ''Erro interno do servidor''"

text \<open>\<open>res.status(n).json({ error: m })\<close>\<close>

definition error_response :: "nat \<Rightarrow> string \<Rightarrow> response" where
  "error_response n m = \<lparr>status = n, body = JObj [(''error'', JStr m)]\<rparr>"

subsection \<open>Rows of the store\<close>

text \<open>
  Table \<open>users\<close>. The columns are the ones the code reads; \<open>password_hash\<close>,
  \<open>full_name\<close> and \<open>subscription_type\<close> may hold SQL NULL.
\<close>

record user_row =
  u_id :: string
  u_email :: string
  u_password_hash :: "string option"
  u_full_name :: "string option"
  u_subscription_type :: "string option"

text \<open>
  Table \<open>user_sessions\<close>, with the columns the login handler writes (columns the
  database fills in by itself are left out). \<open>expires_at\<close> is the instant in
  milliseconds since the epoch (the source stores its ISO-8601 text).
\<close>

record session_row =
  s_user_id :: string
  s_session_token :: string
  s_device_id :: json
  s_ip_address :: string
  s_user_agent :: "string option"
  s_expires_at :: int
  s_is_active :: bool

text \<open>
  Table \<open>user_services\<close>: the columns the listing filters and orders by, and the
  remaining columns as they are.
\<close>

record service_row =
  v_user_id :: string
  v_is_active :: bool
  v_created_at :: int
  v_columns :: "(string \<times> json) list"

subsection \<open>The store and its calls\<close>

text \<open>
  A store call is awaited inside a \<open>try\<close>: the promise either rejects (\<open>Throws\<close>, the
  \<open>catch\<close> block runs) or resolves to the pair \<open>{ data, error }\<close>.
\<close>

datatype pgerror = NotSingleRow | StoreFailure

datatype 'a awaited = Throws | Returns "'a option" "pgerror option"

text \<open>
  What happens to the next store calls is scripted in the state: each call takes the head
  of \<open>faults\<close> (no entry means the call goes through). \<open>calls\<close> records every call
  issued, in order.
\<close>

datatype fault = NoFault | ErrorFault | ThrowFault

datatype call =
    SelectUser string
  | SelectSession string
  | InsertSession
  | SelectServices string

record store =
  users :: "user_row list"
  user_sessions :: "session_row list"
  user_services :: "service_row list"
  faults :: "fault list"
  calls :: "call list"

definition next_fault :: "store \<Rightarrow> fault" where
  "next_fault st = (case faults st of [] \<Rightarrow> NoFault | f # fs \<Rightarrow> f)"

definition issue :: "call \<Rightarrow> store \<Rightarrow> fault \<times> store" where
  "issue c st = (next_fault st, st\<lparr>faults := tl (faults st), calls := calls st @ [c]\<rparr>)"

text \<open>\<open>.single()\<close>: exactly one row, or an error and no data.\<close>

definition single :: "'a list \<Rightarrow> 'a awaited" where
  "single rows =
     (case rows of
        [r] \<Rightarrow> Returns (Some r) None
      | _ \<Rightarrow> Returns None (Some NotSingleRow))"

text \<open>\<open>from('users').select('*').eq('email', email).single()\<close>\<close>

definition select_user :: "string \<Rightarrow> store \<Rightarrow> user_row awaited \<times> store" where
  "select_user email st =
     (case issue (SelectUser email) st of
        (ThrowFault, st') \<Rightarrow> (Throws, st')
      | (ErrorFault, st') \<Rightarrow> (Returns None (Some StoreFailure), st')
      | (NoFault, st') \<Rightarrow> (single (filter (\<lambda>u. u_email u = email) (users st')), st'))"

text \<open>
  \<open>from('user_sessions').select('*, users(*)').eq('session_token', token)
  .eq('is_active', true).single()\<close>: the session row with its owner embedded under
  \<open>users\<close> (null when no user row has the session's \<open>user_id\<close>).
\<close>

definition select_session ::
  "string \<Rightarrow> store \<Rightarrow> (session_row \<times> user_row option) awaited \<times> store" where
  "select_session token st =
     (case issue (SelectSession token) st of
        (ThrowFault, st') \<Rightarrow> (Throws, st')
      | (ErrorFault, st') \<Rightarrow> (Returns None (Some StoreFailure), st')
      | (NoFault, st') \<Rightarrow>
          (single
             (map (\<lambda>s. (s, find (\<lambda>u. u_id u = s_user_id s) (users st')))
                (filter (\<lambda>s. s_session_token s = token \<and> s_is_active s = True)
                   (user_sessions st'))),
           st'))"

text \<open>\<open>from('user_sessions').insert(row).select().single()\<close>\<close>

definition insert_session :: "session_row \<Rightarrow> store \<Rightarrow> session_row awaited \<times> store" where
  "insert_session row st =
     (case issue InsertSession st of
        (ThrowFault, st') \<Rightarrow> (Throws, st')
      | (ErrorFault, st') \<Rightarrow> (Returns None (Some StoreFailure), st')
      | (NoFault, st') \<Rightarrow>
          (Returns (Some row) None, st'\<lparr>user_sessions := user_sessions st' @ [row]\<rparr>))"

text \<open>
  \<open>from('user_services').select('*').eq('user_id', id).eq('is_active', true)
  .order('created_at', { ascending: false })\<close>
\<close>

definition select_services :: "string \<Rightarrow> store \<Rightarrow> service_row list awaited \<times> store" where
  "select_services uid st =
     (case issue (SelectServices uid) st of
        (ThrowFault, st') \<Rightarrow> (Throws, st')
      | (ErrorFault, st') \<Rightarrow> (Returns None (Some StoreFailure), st')
      | (NoFault, st') \<Rightarrow>
          (Returns
             (Some (sort_key (\<lambda>r. - v_created_at r)
                (filter (\<lambda>r. v_user_id r = uid \<and> v_is_active r = True) (user_services st'))))
             None,
           st'))"

section \<open>Requests\<close>

text \<open>
  What the handlers read of a request: the \<open>authorization\<close> header, the fields of the
  JSON body as \<open>express.json()\<close> leaves them in \<open>req.body\<close> (an object; a field is
  absent or holds any JSON value), \<open>req.ip\<close> and the \<open>User-Agent\<close> header.
\<close>

record request =
  authorization :: "string option"
  body_email :: "json option"
  body_password :: "json option"
  body_device_id :: "json option"
  ip :: string
  user_agent :: "string option"

text \<open>
  JavaScript's \<open>!x\<close> on a body field: undefined, null, false, 0 and the empty string
  are falsy, every other value (objects and arrays too) is truthy.
\<close>

definition falsy_value :: "json option \<Rightarrow> bool" where
  "falsy_value x =
     (case x of
        None \<Rightarrow> True
      | Some JNull \<Rightarrow> True
      | Some (JBool b) \<Rightarrow> \<not> b
      | Some (JNum n) \<Rightarrow> n = 0
      | Some (JStr s) \<Rightarrow> s = []
      | Some (JArr xs) \<Rightarrow> False
      | Some (JObj kvs) \<Rightarrow> False)"

text \<open>JavaScript's \<open>!x\<close> on a value that is a string or undefined.\<close>

definition falsy :: "string option \<Rightarrow> bool" where
  "falsy x = (case x of None \<Rightarrow> True | Some s \<Rightarrow> s = [])"

text \<open>\<open>s.split(' ')\<close>: the pieces between single spaces; never an empty array.\<close>

fun split_space :: "string \<Rightarrow> string list" where
  "split_space [] = [[]]"
| "split_space (c # cs) =
     (if c = CHR '' '' then [] # split_space cs
      else (case split_space cs of
              [] \<Rightarrow> [[c]]
            | w # ws \<Rightarrow> (c # w) # ws))"

text \<open>\<open>xs[i]\<close> in JavaScript: undefined out of range.\<close>

fun at_index :: "'a list \<Rightarrow> nat \<Rightarrow> 'a option" where
  "at_index [] i = None"
| "at_index (x # xs) 0 = Some x"
| "at_index (x # xs) (Suc i) = at_index xs i"

text \<open>\<open>authHeader && authHeader.split(' ')[1]\<close>\<close>

definition header_token :: "string option \<Rightarrow> string option" where
  "header_token authHeader =
     (case authHeader of
        None \<Rightarrow> None
      | Some h \<Rightarrow> if h = [] then Some [] else at_index (split_space h) 1)"

section \<open>Session authenticator\<close>

text \<open>
  \<open>authenticateToken\<close> (src/index.js, lines 39 to 65). \<open>Inl\<close> is the response that
  ends the request; \<open>Inr (user, session)\<close> is \<open>next()\<close> with \<open>req.user\<close> and
  \<open>req.session\<close> set.
\<close>

definition authenticateToken ::
  "store \<Rightarrow> request \<Rightarrow> (response + user_row option \<times> session_row) \<times> store" where
  "authenticateToken st req =
     (case header_token (authorization req) of
        None \<Rightarrow> (Inl (error_response 401 msg_token_required), st)
      | Some token \<Rightarrow>
          if token = [] then (Inl (error_response 401 msg_token_required), st)
          else
            (case select_session token st of
               (Throws, st') \<Rightarrow> (Inl (error_response 403 msg_token_invalid), st')
             | (Returns data err, st') \<Rightarrow>
                 (case (err, data) of
                    (None, Some (session, owner)) \<Rightarrow> (Inr (owner, session), st')
                  | _ \<Rightarrow> (Inl (error_response 403 msg_token_invalid_or_expired), st'))))"

section \<open>Login\<close>

text \<open>The \<open>user\<close> object of the login response.\<close>

definition opt_json :: "string option \<Rightarrow> json" where
  "opt_json x = (case x of None \<Rightarrow> JNull | Some s \<Rightarrow> JStr s)"

definition user_projection :: "user_row \<Rightarrow> json" where
  "user_projection user =
     JObj [(''id'', JStr (u_id user)),
           (''email'', JStr (u_email user)),
           (''full_name'', opt_json (u_full_name user)),
           (''subscription_type'', opt_json (u_subscription_type user))]"

text \<open>\<open>device_id || null\<close>\<close>

definition or_null :: "json option \<Rightarrow> json" where
  "or_null x = (if falsy_value x then JNull else (case x of None \<Rightarrow> JNull | Some v \<Rightarrow> v))"

text \<open>
  \<open>.eq('email', email)\<close> puts the value into the query as text: a string as it is,
  any other value through JavaScript's conversion to a string, the parameter \<open>to_text\<close>.
\<close>

definition filter_text :: "(json \<Rightarrow> string) \<Rightarrow> json \<Rightarrow> string" where
  "filter_text to_text v = (case v of JStr s \<Rightarrow> s | _ \<Rightarrow> to_text v)"

text \<open>
  \<open>bcrypt.compare(password, hash)\<close> of bcryptjs. Unless both arguments are strings the
  promise rejects (\<open>Illegal arguments\<close>), which is \<open>None\<close> here. On two strings the
  result is that of the hash computation \<open>check\<close>, a parameter: whether the password
  matches, or \<open>None\<close> when the computation fails on the stored hash and the promise
  rejects.
\<close>

definition bcrypt_compare ::
  "(string \<Rightarrow> string \<Rightarrow> bool option) \<Rightarrow> json \<Rightarrow> string option \<Rightarrow> bool option" where
  "bcrypt_compare check s hash =
     (case s of
        JStr password \<Rightarrow> (case hash of None \<Rightarrow> None | Some h \<Rightarrow> check password h)
      | _ \<Rightarrow> None)"

text \<open>
  \<open>new Date(t).toISOString()\<close> throws a RangeError when \<open>t\<close> is outside the range of
  a Date, 8.64e15 milliseconds either side of the epoch.
\<close>

definition date_in_range :: "int \<Rightarrow> bool" where
  "date_in_range t = (- 8640000000000000 \<le> t \<and> t \<le> 8640000000000000)"

text \<open>
  \<open>POST /api/login\<close> (src/index.js, lines 77 to 140). \<open>now\<close> is \<open>Date.now()\<close> and
  \<open>uuid\<close> is the result of \<open>uuidv4()\<close>. Whatever throws or rejects inside the
  \<open>try\<close> ends in the \<open>catch\<close> of line 136, status 500.
\<close>

definition login ::
  "(string \<Rightarrow> string \<Rightarrow> bool option) \<Rightarrow> (json \<Rightarrow> string) \<Rightarrow> int \<Rightarrow> string
     \<Rightarrow> store \<Rightarrow> request \<Rightarrow> response \<times> store" where
  "login check to_text now uuid st req =
     (if falsy_value (body_email req) \<or> falsy_value (body_password req)
      then (error_response 400 msg_fields_required, st)
      else
        (case (body_email req, body_password req) of
           (Some email, Some password) \<Rightarrow>
             (case select_user (filter_text to_text email) st of
                (Throws, st1) \<Rightarrow> (error_response 500 msg_internal, st1)
              | (Returns data userError, st1) \<Rightarrow>
                  (case (userError, data) of
                     (None, Some user) \<Rightarrow>
                       (case bcrypt_compare check password (u_password_hash user) of
                          None \<Rightarrow> (error_response 500 msg_internal, st1)
                        | Some validPassword \<Rightarrow>
                            if \<not> validPassword
                            then (error_response 401 msg_invalid_credentials, st1)
                            else
                              (let sessionToken = uuid;
                                   expiresAt = now + 7 * 24 * 60 * 60 * 1000
                               in if \<not> date_in_range expiresAt
                                  then (error_response 500 msg_internal, st1)
                                  else
                                    (case insert_session
                                            \<lparr>s_user_id = u_id user,
                                             s_session_token = sessionToken,
                                             s_device_id = or_null (body_device_id req),
                                             s_ip_address = ip req,
                                             s_user_agent = user_agent req,
                                             s_expires_at = expiresAt,
                                             s_is_active = True\<rparr> st1 of
                                       (Throws, st2) \<Rightarrow> (error_response 500 msg_internal, st2)
                                     | (Returns session sessionError, st2) \<Rightarrow>
                                         (case sessionError of
                                            Some e \<Rightarrow> (error_response 500 msg_session_create, st2)
                                          | None \<Rightarrow>
                                              (\<lparr>status = 200,
                                                body = JObj [(''success'', JBool True),
                                                             (''token'', JStr sessionToken),
                                                             (''user'', user_projection user)]\<rparr>,
                                               st2)))))
                   | _ \<Rightarrow> (error_response 401 msg_invalid_credentials, st1)))
         | _ \<Rightarrow> (error_response 400 msg_fields_required, st)))"

section \<open>Service listing\<close>

definition service_json :: "service_row \<Rightarrow> json" where
  "service_json r =
     JObj ([(''user_id'', JStr (v_user_id r)),
            (''is_active'', JBool (v_is_active r)),
            (''created_at'', JNum (v_created_at r))] @ v_columns r)"

text \<open>
  \<open>GET /api/services\<close> (src/index.js, lines 143 to 165), behind \<open>authenticateToken\<close>.
  When the session has no owner row, \<open>req.user\<close> is null and \<open>req.user.id\<close> throws
  inside the \<open>try\<close>, before any call is issued.
\<close>

definition get_services :: "store \<Rightarrow> request \<Rightarrow> response \<times> store" where
  "get_services st req =
     (case authenticateToken st req of
        (Inl resp, st1) \<Rightarrow> (resp, st1)
      | (Inr (user, session), st1) \<Rightarrow>
          (case user of
             None \<Rightarrow> (error_response 500 msg_internal, st1)
           | Some u \<Rightarrow>
               (case select_services (u_id u) st1 of
                  (Throws, st2) \<Rightarrow> (error_response 500 msg_internal, st2)
                | (Returns services err, st2) \<Rightarrow>
                    (case err of
                       Some e \<Rightarrow> (error_response 500 msg_services_fetch, st2)
                     | None \<Rightarrow>
                         (\<lparr>status = 200,
                           body = JObj [(''success'', JBool True),
                                        (''services'',
                                         JArr (map service_json
                                           (case services of None \<Rightarrow> [] | Some rows \<Rightarrow> rows)))]\<rparr>,
                          st2)))))"

section \<open>Process start\<close>

text \<open>
  The three variables read at lines 14 to 16 of src/index.js.
\<close>

record environment =
  SUPABASE_URL :: "string option"
  SUPABASE_ANON_KEY :: "string option"
  SUPABASE_SERVICE_ROLE_KEY :: "string option"

text \<open>
  How the start of the process ends: \<open>process.exit(n)\<close>, an exception thrown at module
  level that nothing catches (node prints it and ends the process with status 1, before
  the lines below it run), or the server listening.
\<close>

datatype startup = Exited nat | Uncaught | Listening

definition exit_status :: "startup \<Rightarrow> nat option" where
  "exit_status r = (case r of Exited n \<Rightarrow> Some n | Uncaught \<Rightarrow> Some 1 | Listening \<Rightarrow> None)"

text \<open>
  \<open>createClient(url, key)\<close> of supabase-js: the constructor throws
  \<open>supabaseUrl is required.\<close> on a falsy URL and \<open>supabaseKey is required.\<close> on a
  falsy key. What else it may refuse in a URL and key that are present is the parameter
  \<open>accepts\<close>. \<open>True\<close> means the constructor returns.
\<close>

definition createClient ::
  "(string \<Rightarrow> string \<Rightarrow> bool) \<Rightarrow> string option \<Rightarrow> string option \<Rightarrow> bool" where
  "createClient accepts supabaseUrl supabaseKey =
     (case (supabaseUrl, supabaseKey) of
        (Some url, Some key) \<Rightarrow> if url = [] \<or> key = [] then False else accepts url key
      | _ \<Rightarrow> False)"

text \<open>
  Lines 18 to 24 and 207: the guard, the two \<open>createClient\<close> calls and \<open>app.listen\<close>.
\<close>

definition start_process :: "(string \<Rightarrow> string \<Rightarrow> bool) \<Rightarrow> environment \<Rightarrow> startup" where
  "start_process accepts env =
     (let supabaseUrl = SUPABASE_URL env;
          supabaseKey = SUPABASE_ANON_KEY env;
          supabaseServiceKey = SUPABASE_SERVICE_ROLE_KEY env
      in if falsy supabaseUrl \<or> falsy supabaseKey then Exited 1
         else if \<not> createClient accepts supabaseUrl supabaseKey then Uncaught
         else if \<not> createClient accepts supabaseUrl supabaseServiceKey then Uncaught
         else Listening)"

section \<open>Sample data\<close>

text \<open>
  Two users, one session of the first user whose expiry instant is long past, and service
  rows of both; the concrete inputs at which the theorems below are instantiated.
\<close>

definition alice :: user_row where
  "alice = \<lparr>u_id = ''u-alice'', u_email = ''alice@example.com'',
            u_password_hash = Some ''hash:wonderland'',
            u_full_name = Some ''Alice'', u_subscription_type = Some ''pro''\<rparr>"

definition bob :: user_row where
  "bob = \<lparr>u_id = ''u-bob'', u_email = ''bob@example.com'',
          u_password_hash = Some ''hash:builder'',
          u_full_name = None, u_subscription_type = Some ''free''\<rparr>"

definition check_demo :: "string \<Rightarrow> string \<Rightarrow> bool option" where
  "check_demo password hash = Some (hash = ''hash:'' @ password)"

definition text_demo :: "json \<Rightarrow> string" where
  "text_demo v = ''[object Object]''"

definition stale_session :: session_row where
  "stale_session = \<lparr>s_user_id = ''u-alice'', s_session_token = ''tok-alice'', s_device_id = JNull,
       s_ip_address = ''10.0.0.1'', s_user_agent = None, s_expires_at = 1000, s_is_active = True\<rparr>"

definition demo_services :: "service_row list" where
  "demo_services =
     [\<lparr>v_user_id = ''u-alice'', v_is_active = True, v_created_at = 10, v_columns = [(''name'', JStr ''mail'')]\<rparr>,
      \<lparr>v_user_id = ''u-bob'', v_is_active = True, v_created_at = 20, v_columns = [(''name'', JStr ''video'')]\<rparr>,
      \<lparr>v_user_id = ''u-alice'', v_is_active = True, v_created_at = 30, v_columns = [(''name'', JStr ''music'')]\<rparr>,
      \<lparr>v_user_id = ''u-alice'', v_is_active = False, v_created_at = 40, v_columns = []\<rparr>]"

definition demo_store :: store where
  "demo_store = \<lparr>users = [alice, bob], user_sessions = [stale_session],
                  user_services = demo_services, faults = [], calls = []\<rparr>"

definition demo_request :: request where
  "demo_request = \<lparr>authorization = None, body_email = None, body_password = None,
                    body_device_id = None, ip = ''10.0.0.1'', user_agent = None\<rparr>"

definition demo_environment :: environment where
  "demo_environment = \<lparr>SUPABASE_URL = Some ''https://demo.supabase.co'',
                        SUPABASE_ANON_KEY = Some ''anon-key'',
                        SUPABASE_SERVICE_ROLE_KEY = None\<rparr>"

definition full_environment :: environment where
  "full_environment = demo_environment\<lparr>SUPABASE_SERVICE_ROLE_KEY := Some ''service-key''\<rparr>"

definition bearer_request :: request where
  "bearer_request = demo_request\<lparr>authorization := Some ''Bearer tok-alice''\<rparr>"

definition good_login_request :: request where
  "good_login_request =
     demo_request\<lparr>body_email := Some (JStr ''alice@example.com''),
                  body_password := Some (JStr ''wonderland'')\<rparr>"

definition wrong_password_request :: request where
  "wrong_password_request =
     demo_request\<lparr>body_email := Some (JStr ''alice@example.com''),
                  body_password := Some (JStr ''builder'')\<rparr>"

definition unknown_user_request :: request where
  "unknown_user_request =
     demo_request\<lparr>body_email := Some (JStr ''carol@example.com''),
                  body_password := Some (JStr ''wonderland'')\<rparr>"

text \<open>The body \<open>{ "email": ..., "password": 12345678 }\<close>, a number for a password.\<close>

definition numeric_password_request :: request where
  "numeric_password_request =
     demo_request\<lparr>body_email := Some (JStr ''alice@example.com''),
                  body_password := Some (JNum 12345678)\<rparr>"

definition numeric_password_unknown_request :: request where
  "numeric_password_unknown_request =
     demo_request\<lparr>body_email := Some (JStr ''carol@example.com''),
                  body_password := Some (JNum 12345678)\<rparr>"

definition foreign_token_request :: request where
  "foreign_token_request = demo_request\<lparr>authorization := Some ''Bearer not-a-session''\<rparr>"

section \<open>Properties\<close>

text \<open>The sample data, unfolded together.\<close>

lemmas demo_defs = demo_store_def bearer_request_def demo_request_def stale_session_def
  alice_def bob_def demo_services_def check_demo_def text_demo_def

subsection \<open>Store calls\<close>

lemma issue_tables:
  "users (snd (issue c st)) = users st"
  "user_sessions (snd (issue c st)) = user_sessions st"
  "user_services (snd (issue c st)) = user_services st"
  by (simp_all add: issue_def)

lemma select_session_tables:
  "users (snd (select_session token st)) = users st"
  "user_sessions (snd (select_session token st)) = user_sessions st"
  "user_services (snd (select_session token st)) = user_services st"
  by (simp_all add: select_session_def issue_def split: fault.splits)

lemma authenticateToken_tables:
  "users (snd (authenticateToken st req)) = users st"
  "user_sessions (snd (authenticateToken st req)) = user_sessions st"
  "user_services (snd (authenticateToken st req)) = user_services st"
  by (auto simp add: authenticateToken_def select_session_def issue_def
      split: fault.splits option.splits prod.splits awaited.splits)

lemma select_session_hit:
  "fst (select_session token st) = Returns (Some (session, owner)) None \<longleftrightarrow>
     next_fault st = NoFault
     \<and> filter (\<lambda>s. s_session_token s = token \<and> s_is_active s = True) (user_sessions st) = [session]
     \<and> owner = find (\<lambda>u. u_id u = s_user_id session) (users st)"
  by (auto simp add: select_session_def issue_def single_def map_eq_Cons_conv
      split: fault.splits list.splits)

lemma authenticateToken_accepts:
  "fst (authenticateToken st req) = Inr (owner, session) \<longleftrightarrow>
     (\<exists>token. header_token (authorization req) = Some token \<and> token \<noteq> []
        \<and> fst (select_session token st) = Returns (Some (session, owner)) None)"
  by (auto simp add: authenticateToken_def split: option.splits prod.splits awaited.splits)

lemma authenticateToken_missing:
  "falsy (header_token (authorization req)) \<Longrightarrow>
     authenticateToken st req = (Inl (error_response 401 msg_token_required), st)"
  by (auto simp add: authenticateToken_def falsy_def split: option.splits)

lemma authenticateToken_rejects:
  "fst (authenticateToken st req) = Inl r \<Longrightarrow> \<not> falsy (header_token (authorization req)) \<Longrightarrow>
     r = error_response 403 msg_token_invalid \<or> r = error_response 403 msg_token_invalid_or_expired"
  by (auto simp add: authenticateToken_def falsy_def split: option.splits prod.splits awaited.splits if_splits)

lemma error_response_sel:
  "status (error_response n m) = n"
  "body (error_response n m) = JObj [(''error'', JStr m)]"
  by (simp_all add: error_response_def)

lemma select_user_tables:
  "users (snd (select_user email st)) = users st"
  "user_sessions (snd (select_user email st)) = user_sessions st"
  "user_services (snd (select_user email st)) = user_services st"
  by (simp_all add: select_user_def issue_def split: fault.splits)

lemma select_user_hit:
  "fst (select_user email st) = Returns (Some user) None \<longleftrightarrow>
     next_fault st = NoFault \<and> filter (\<lambda>u. u_email u = email) (users st) = [user]"
  by (auto simp add: select_user_def issue_def single_def split: fault.splits list.splits)

lemma select_user_shape:
  "fst (select_user email st) = Returns data err \<Longrightarrow>
     (err = None \<and> (\<exists>user. data = Some user \<and> filter (\<lambda>u. u_email u = email) (users st) = [user]))
     \<or> (err \<noteq> None \<and> data = None)"
  by (auto simp add: select_user_def issue_def single_def split: fault.splits list.splits)

lemma insert_session_shape:
  "insert_session row st = (Returns data None, st') \<Longrightarrow>
     data = Some row \<and> user_sessions st' = user_sessions st @ [row]
     \<and> users st' = users st \<and> user_services st' = user_services st"
  by (auto simp add: insert_session_def issue_def split: fault.splits)

lemma split_space_word:
  "CHR '' '' \<notin> set w \<Longrightarrow> split_space w = [w]"
  by (induction w) auto

lemma header_token_word:
  "CHR '' '' \<notin> set h \<Longrightarrow> falsy (header_token (Some h))"
  by (cases h) (auto simp add: header_token_def falsy_def split_space_word split: list.splits)

lemma select_user_throws:
  "fst (select_user email st) = Throws \<longleftrightarrow> next_fault st = ThrowFault"
  by (auto simp add: select_user_def issue_def single_def split: fault.splits list.splits)

lemma select_services_shape:
  "select_services uid st = (Returns data None, st') \<Longrightarrow>
     \<exists>rows. data = Some rows
       \<and> set rows = {r \<in> set (user_services st). v_user_id r = uid \<and> v_is_active r}"
  by (auto simp add: select_services_def issue_def split: fault.splits)

lemma authenticateToken_Inl_status:
  assumes "fst (authenticateToken st req) = Inl r"
  shows "status r = 401 \<or> status r = 403"
proof (cases "falsy (header_token (authorization req))")
  case True
  then show ?thesis using assms authenticateToken_missing [of req st]
    by (auto simp add: error_response_sel)
next
  case False
  then show ?thesis using assms authenticateToken_rejects [of st req r]
    by (auto simp add: error_response_sel)
qed

lemma authenticateToken_session:
  assumes "fst (authenticateToken st req) = Inr (owner, session)"
  shows "session \<in> set (user_sessions st) \<and> s_is_active session
         \<and> owner = find (\<lambda>u. u_id u = s_user_id session) (users st)"
proof -
  from assms obtain token where
    "fst (select_session token st) = Returns (Some (session, owner)) None"
    using authenticateToken_accepts [of st req owner session] by auto
  then have f: "filter (\<lambda>s. s_session_token s = token \<and> s_is_active s = True) (user_sessions st)
                  = [session]"
    and o: "owner = find (\<lambda>u. u_id u = s_user_id session) (users st)"
    using select_session_hit [of token st session owner] by auto
  have "session \<in> set (filter (\<lambda>s. s_session_token s = token \<and> s_is_active s = True)
                          (user_sessions st))"
    using f by simp
  then show ?thesis using o by simp
qed

subsection \<open>The authenticator leaves the store's tables alone\<close>

text \<open>
  Claim C9. A successful pass of \<open>authenticateToken\<close> mutates no session state: the
  \<open>user_sessions\<close> table (and with it every field of every stored session), the
  \<open>users\<close> table and the \<open>user_services\<close> table are the same before and after. What
  the request gains is the stored session row, as it is in the table, and its owner.
\<close>

theorem authenticateToken_leaves_sessions:
  assumes "authenticateToken st req = (Inr (owner, session), st')"
  shows "user_sessions st' = user_sessions st \<and> users st' = users st
         \<and> user_services st' = user_services st
         \<and> session \<in> set (user_sessions st)
         \<and> owner = find (\<lambda>u. u_id u = s_user_id session) (users st)"
proof -
  have a: "fst (authenticateToken st req) = Inr (owner, session)" using assms by simp
  have "st' = snd (authenticateToken st req)" using assms by simp
  then show ?thesis
    using authenticateToken_session [OF a] authenticateToken_tables [of st req] by simp
qed

theorem authenticateToken_leaves_sessions_witness:
  "authenticateToken demo_store bearer_request
     = (Inr (Some alice, stale_session), demo_store\<lparr>calls := [SelectSession ''tok-alice'']\<rparr>)
   \<and> user_sessions (demo_store\<lparr>calls := [SelectSession ''tok-alice'']\<rparr>) = user_sessions demo_store
   \<and> stale_session \<in> set (user_sessions demo_store)"
proof -
  have run: "authenticateToken demo_store bearer_request
     = (Inr (Some alice, stale_session), demo_store\<lparr>calls := [SelectSession ''tok-alice'']\<rparr>)"
    by (simp add: authenticateToken_def header_token_def select_session_def issue_def
        next_fault_def single_def demo_store_def bearer_request_def demo_request_def
        stale_session_def alice_def bob_def)
  from authenticateToken_leaves_sessions [OF run] run show ?thesis by simp
qed

lemma find_holds:
  "find P xs = Some x \<Longrightarrow> P x"
  by (induction xs) (auto split: if_splits)

lemma get_services_authenticated:
  "authenticateToken st req = (Inr (Some owner, session), st1) \<Longrightarrow>
   select_services (u_id owner) st1 = (b, st2) \<Longrightarrow>
   get_services st req =
     (case b of
        Throws \<Rightarrow> (error_response 500 msg_internal, st2)
      | Returns services err \<Rightarrow>
          (case err of
             Some e \<Rightarrow> (error_response 500 msg_services_fetch, st2)
           | None \<Rightarrow>
               (\<lparr>status = 200,
                 body = JObj [(''success'', JBool True),
                              (''services'',
                               JArr (map service_json
                                 (case services of None \<Rightarrow> [] | Some rows \<Rightarrow> rows)))]\<rparr>,
                st2)))"
  by (simp add: get_services_def)

lemma get_services_rejected:
  "authenticateToken st req = (Inl r, st1) \<Longrightarrow> get_services st req = (r, st1)"
  by (simp add: get_services_def)

lemma get_services_ownerless:
  "authenticateToken st req = (Inr (None, session), st1) \<Longrightarrow>
   get_services st req = (error_response 500 msg_internal, st1)"
  by (simp add: get_services_def)

subsection \<open>The service listing is scoped to the authenticated user\<close>

text \<open>
  Claim C5. When \<open>GET /api/services\<close> answers with status 200, the request was
  authenticated as some user (the owner of the session whose token it bears), and every
  row of the listing is a row of the store whose \<open>user_id\<close> is that user's id: rows
  of any other user are never listed.
\<close>

theorem get_services_scoped:
  assumes "get_services st req = (resp, st')" and "status resp = 200"
  shows "\<exists>owner session rows.
           fst (authenticateToken st req) = Inr (Some owner, session)
           \<and> u_id owner = s_user_id session
           \<and> body resp = JObj [(''success'', JBool True),
                               (''services'', JArr (map service_json rows))]
           \<and> (\<forall>r\<in>set rows. v_user_id r = u_id owner \<and> r \<in> set (user_services st))"
proof -
  obtain a st1 where au: "authenticateToken st req = (a, st1)"
    by (cases "authenticateToken st req")
  have no_inl: "a \<noteq> Inl r" for r
  proof
    assume "a = Inl r"
    then have "resp = r" "status r = 401 \<or> status r = 403"
      using get_services_rejected [of st req r st1] authenticateToken_Inl_status [of st req r]
        au assms(1) by simp_all
    then show False using assms(2) by simp
  qed
  have no_none: "a \<noteq> Inr (None, session)" for session
  proof
    assume "a = Inr (None, session)"
    then have "resp = error_response 500 msg_internal"
      using get_services_ownerless [of st req session st1] au assms(1) by simp
    then show False using assms(2) by (simp add: error_response_sel)
  qed
  obtain owner session where a: "a = Inr (Some owner, session)"
  proof (cases a)
    case (Inl r)
    then show ?thesis using no_inl by simp
  next
    case (Inr p)
    then show ?thesis using no_none that by (cases p; cases "fst p") auto
  qed
  have t: "user_services st1 = user_services st"
    using authenticateToken_tables(3) [of st req] au by simp
  have "find (\<lambda>u. u_id u = s_user_id session) (users st) = Some owner"
    using authenticateToken_session [of st req "Some owner" session] au a by simp
  then have i: "u_id owner = s_user_id session"
    by (rule find_holds)
  obtain b st2 where se: "select_services (u_id owner) st1 = (b, st2)"
    by (cases "select_services (u_id owner) st1")
  have g: "(resp, st') =
     (case b of
        Throws \<Rightarrow> (error_response 500 msg_internal, st2)
      | Returns services err \<Rightarrow>
          (case err of
             Some e \<Rightarrow> (error_response 500 msg_services_fetch, st2)
           | None \<Rightarrow>
               (\<lparr>status = 200,
                 body = JObj [(''success'', JBool True),
                              (''services'',
                               JArr (map service_json
                                 (case services of None \<Rightarrow> [] | Some rows \<Rightarrow> rows)))]\<rparr>,
                st2)))"
    using get_services_authenticated [of st req owner session st1 b st2] au a se assms(1)
    by simp
  obtain data where b: "b = Returns data None"
    and r: "body resp = JObj [(''success'', JBool True),
              (''services'', JArr (map service_json (case data of None \<Rightarrow> [] | Some rows \<Rightarrow> rows)))]"
  proof (cases b)
    case Throws
    then show ?thesis using g assms(2) by (simp add: error_response_sel)
  next
    case (Returns data err)
    then show ?thesis using g assms(2) that by (cases err) (auto simp add: error_response_sel)
  qed
  obtain rows where d: "data = Some rows"
    and rs: "set rows = {r \<in> set (user_services st). v_user_id r = u_id owner \<and> v_is_active r}"
    using select_services_shape [of "u_id owner" st1 data st2] se b t by auto
  have q: "\<forall>r\<in>set rows. v_user_id r = u_id owner \<and> r \<in> set (user_services st)"
    using rs by simp
  have "fst (authenticateToken st req) = Inr (Some owner, session)" using au a by simp
  moreover have "body resp = JObj [(''success'', JBool True),
                               (''services'', JArr (map service_json rows))]"
    using r d by simp
  ultimately show ?thesis using i q by blast
qed

theorem get_services_scoped_witness:
  "get_services demo_store bearer_request
     = (\<lparr>status = 200,
         body = JObj [(''success'', JBool True),
                      (''services'', JArr (map service_json [demo_services ! 2, demo_services ! 0]))]\<rparr>,
        demo_store\<lparr>calls := [SelectSession ''tok-alice'', SelectServices ''u-alice'']\<rparr>)
   \<and> (\<exists>owner session rows.
           fst (authenticateToken demo_store bearer_request) = Inr (Some owner, session)
           \<and> u_id owner = s_user_id session
           \<and> body (fst (get_services demo_store bearer_request))
               = JObj [(''success'', JBool True), (''services'', JArr (map service_json rows))]
           \<and> (\<forall>r\<in>set rows. v_user_id r = u_id owner \<and> r \<in> set (user_services demo_store)))"
proof -
  have run: "get_services demo_store bearer_request
     = (\<lparr>status = 200,
         body = JObj [(''success'', JBool True),
                      (''services'', JArr (map service_json [demo_services ! 2, demo_services ! 0]))]\<rparr>,
        demo_store\<lparr>calls := [SelectSession ''tok-alice'', SelectServices ''u-alice'']\<rparr>)"
    by (simp add: get_services_def authenticateToken_def header_token_def select_session_def
        select_services_def issue_def next_fault_def single_def demo_defs)
  have "status (fst (get_services demo_store bearer_request)) = 200"
    by (simp add: run)
  from get_services_scoped [of demo_store bearer_request
      "fst (get_services demo_store bearer_request)" "snd (get_services demo_store bearer_request)", OF _ this]
    run show ?thesis by simp
qed

subsection \<open>Authenticator: what it checks\<close>

lemma split_space_scheme:
  "CHR '' '' \<notin> set scheme \<Longrightarrow> split_space (scheme @ CHR '' '' # rest) = scheme # split_space rest"
  by (induction scheme) (auto split: list.splits)

lemma header_token_second:
  "split_space h = scheme # token # rest \<Longrightarrow> header_token (Some h) = Some token"
  by (cases h) (auto simp add: header_token_def)

text \<open>
  Claim C10. The scheme word of the Authorization header is never looked at. Whatever the
  first space-delimited part \<open>scheme\<close> of the header is, when the second part is the
  (non-empty) token of the one active session bearing it and the store call goes
  through, the request is passed on with that session and its owner. A header of a single
  word (no space in it) is answered like a missing credential, status 401, with no store
  call.
\<close>

theorem authenticateToken_scheme_unchecked:
  "(split_space h = scheme # token # rest \<and> token \<noteq> [] \<and> next_fault st = NoFault
      \<and> filter (\<lambda>s. s_session_token s = token \<and> s_is_active s = True) (user_sessions st)
          = [session]
     \<longrightarrow> fst (authenticateToken st (req\<lparr>authorization := Some h\<rparr>))
          = Inr (find (\<lambda>u. u_id u = s_user_id session) (users st), session))
   \<and> (CHR '' '' \<notin> set h
     \<longrightarrow> authenticateToken st (req\<lparr>authorization := Some h\<rparr>)
          = (Inl (error_response 401 msg_token_required), st))"
proof (intro conjI impI)
  assume a: "split_space h = scheme # token # rest \<and> token \<noteq> [] \<and> next_fault st = NoFault
      \<and> filter (\<lambda>s. s_session_token s = token \<and> s_is_active s = True) (user_sessions st)
          = [session]"
  then have "header_token (authorization (req\<lparr>authorization := Some h\<rparr>)) = Some token"
    using header_token_second [of h scheme token rest] by simp
  moreover have "fst (select_session token st)
      = Returns (Some (session, find (\<lambda>u. u_id u = s_user_id session) (users st))) None"
    using a select_session_hit [of token st session
        "find (\<lambda>u. u_id u = s_user_id session) (users st)"] by simp
  ultimately show "fst (authenticateToken st (req\<lparr>authorization := Some h\<rparr>))
          = Inr (find (\<lambda>u. u_id u = s_user_id session) (users st), session)"
    using a authenticateToken_accepts [of st "req\<lparr>authorization := Some h\<rparr>"
        "find (\<lambda>u. u_id u = s_user_id session) (users st)" session] by blast
next
  assume "CHR '' '' \<notin> set h"
  then have "falsy (header_token (authorization (req\<lparr>authorization := Some h\<rparr>)))"
    using header_token_word [of h] by simp
  then show "authenticateToken st (req\<lparr>authorization := Some h\<rparr>)
          = (Inl (error_response 401 msg_token_required), st)"
    by (rule authenticateToken_missing)
qed

theorem authenticateToken_scheme_unchecked_witness:
  "split_space ''Basic tok-alice'' = [''Basic'', ''tok-alice'']
   \<and> fst (authenticateToken demo_store (demo_request\<lparr>authorization := Some ''Basic tok-alice''\<rparr>))
       = Inr (Some alice, stale_session)
   \<and> CHR '' '' \<notin> set ''tok-alice''
   \<and> authenticateToken demo_store (demo_request\<lparr>authorization := Some ''tok-alice''\<rparr>)
       = (Inl (error_response 401 msg_token_required), demo_store)"
proof -
  have s: "split_space ''Basic tok-alice'' = [''Basic'', ''tok-alice'']" by simp
  have f: "filter (\<lambda>s. s_session_token s = ''tok-alice'' \<and> s_is_active s = True)
             (user_sessions demo_store) = [stale_session]"
    by (simp add: demo_defs)
  have n: "next_fault demo_store = NoFault" by (simp add: next_fault_def demo_defs)
  have o: "find (\<lambda>u. u_id u = s_user_id stale_session) (users demo_store) = Some alice"
    by (simp add: demo_defs)
  have w: "CHR '' '' \<notin> set ''tok-alice''" by simp
  from authenticateToken_scheme_unchecked [of "''Basic tok-alice''" "''Basic''" "''tok-alice''" "[]"
      demo_store stale_session demo_request] s f n o
  have "fst (authenticateToken demo_store (demo_request\<lparr>authorization := Some ''Basic tok-alice''\<rparr>))
       = Inr (Some alice, stale_session)" by simp
  moreover from authenticateToken_scheme_unchecked [of "''tok-alice''" "''Basic''" "''tok-alice''" "[]"
      demo_store stale_session demo_request] w
  have "authenticateToken demo_store (demo_request\<lparr>authorization := Some ''tok-alice''\<rparr>)
       = (Inl (error_response 401 msg_token_required), demo_store)" by simp
  ultimately show ?thesis using s w by simp
qed

text \<open>
  Claim C1 at a concrete input. The only session of the sample store is active and its
  expiry instant, 1000, lies before the instant 2000; a request bearing its token is
  passed on as authenticated. The authenticator reads no clock and no \<open>expires_at\<close>.
\<close>

theorem authenticateToken_accepts_expired:
  "s_is_active stale_session \<and> s_expires_at stale_session < 2000
   \<and> fst (authenticateToken demo_store bearer_request) = Inr (Some alice, stale_session)"
  by (simp add: authenticateToken_def header_token_def select_session_def issue_def
      next_fault_def single_def demo_defs)

subsection \<open>Login: the steps of the handler\<close>

lemma bcrypt_compare_Some:
  "bcrypt_compare check s hash = Some b \<longleftrightarrow>
     (\<exists>password h. s = JStr password \<and> hash = Some h \<and> check password h = Some b)"
  by (auto simp add: bcrypt_compare_def split: json.splits option.splits)

lemma falsy_value_absent:
  "falsy_value None"
  by (simp add: falsy_value_def)

lemma login_rejected_fields:
  "falsy_value (body_email req) \<or> falsy_value (body_password req) \<Longrightarrow>
     login check to_text now uuid st req = (error_response 400 msg_fields_required, st)"
  by (simp add: login_def)

lemma login_looked_up:
  assumes "body_email req = Some email" and "\<not> falsy_value (Some email)"
    and "body_password req = Some password" and "\<not> falsy_value (Some password)"
    and "select_user (filter_text to_text email) st = (Returns (Some user) None, st1)"
  shows "login check to_text now uuid st req =
     (case bcrypt_compare check password (u_password_hash user) of
        None \<Rightarrow> (error_response 500 msg_internal, st1)
      | Some validPassword \<Rightarrow>
          if \<not> validPassword then (error_response 401 msg_invalid_credentials, st1)
          else if \<not> date_in_range (now + 604800000)
               then (error_response 500 msg_internal, st1)
               else
                 (case insert_session
                         \<lparr>s_user_id = u_id user, s_session_token = uuid,
                          s_device_id = or_null (body_device_id req), s_ip_address = ip req,
                          s_user_agent = user_agent req, s_expires_at = now + 604800000,
                          s_is_active = True\<rparr> st1 of
                    (Throws, st2) \<Rightarrow> (error_response 500 msg_internal, st2)
                  | (Returns session sessionError, st2) \<Rightarrow>
                      (case sessionError of
                         Some e \<Rightarrow> (error_response 500 msg_session_create, st2)
                       | None \<Rightarrow>
                           (\<lparr>status = 200,
                             body = JObj [(''success'', JBool True), (''token'', JStr uuid),
                                          (''user'', user_projection user)]\<rparr>,
                            st2))))"
  using assms by (simp add: login_def Let_def split: option.splits)

lemma login_not_found:
  assumes "body_email req = Some email" and "\<not> falsy_value (Some email)"
    and "body_password req = Some password" and "\<not> falsy_value (Some password)"
    and "select_user (filter_text to_text email) st = (Returns data err, st1)"
    and "err \<noteq> None \<or> data = None"
  shows "login check to_text now uuid st req = (error_response 401 msg_invalid_credentials, st1)"
  using assms by (auto simp add: login_def split: option.splits)

lemma login_lookup_threw:
  assumes "body_email req = Some email" and "\<not> falsy_value (Some email)"
    and "body_password req = Some password" and "\<not> falsy_value (Some password)"
    and "select_user (filter_text to_text email) st = (Throws, st1)"
  shows "login check to_text now uuid st req = (error_response 500 msg_internal, st1)"
  using assms by (simp add: login_def)

lemma login_success:
  assumes "login check to_text now uuid st req = (resp, st')" and "status resp = 200"
  shows "\<exists>email password hash user.
           body_email req = Some email \<and> \<not> falsy_value (Some email) \<and>
           body_password req = Some (JStr password) \<and> password \<noteq> [] \<and>
           filter (\<lambda>u. u_email u = filter_text to_text email) (users st) = [user] \<and>
           u_password_hash user = Some hash \<and> check password hash = Some True \<and>
           date_in_range (now + 604800000) \<and>
           resp = \<lparr>status = 200,
                   body = JObj [(''success'', JBool True), (''token'', JStr uuid),
                                (''user'', user_projection user)]\<rparr> \<and>
           user_sessions st' = user_sessions st @
             [\<lparr>s_user_id = u_id user, s_session_token = uuid,
               s_device_id = or_null (body_device_id req), s_ip_address = ip req,
               s_user_agent = user_agent req, s_expires_at = now + 604800000,
               s_is_active = True\<rparr>] \<and>
           users st' = users st"
proof -
  have nf: "\<not> (falsy_value (body_email req) \<or> falsy_value (body_password req))"
  proof
    assume "falsy_value (body_email req) \<or> falsy_value (body_password req)"
    then have "resp = error_response 400 msg_fields_required"
      using login_rejected_fields [of req check to_text now uuid st] assms(1) by simp
    then show False using assms(2) by (simp add: error_response_sel)
  qed
  then obtain email pw where
    e: "body_email req = Some email" "\<not> falsy_value (Some email)" and
    p: "body_password req = Some pw" "\<not> falsy_value (Some pw)"
    by (cases "body_email req"; cases "body_password req") (auto simp add: falsy_value_absent)
  obtain a st1 where su: "select_user (filter_text to_text email) st = (a, st1)"
    by (cases "select_user (filter_text to_text email) st")
  have "a \<noteq> Throws"
  proof
    assume "a = Throws"
    then have "resp = error_response 500 msg_internal"
      using login_lookup_threw [OF e p, of to_text st st1 check now uuid] su assms(1) by simp
    then show False using assms(2) by (simp add: error_response_sel)
  qed
  then obtain data err where a: "a = Returns data err" by (cases a) auto
  have "\<not> (err \<noteq> None \<or> data = None)"
  proof
    assume "err \<noteq> None \<or> data = None"
    then have "resp = error_response 401 msg_invalid_credentials"
      using login_not_found [OF e p, of to_text st data err st1 check now uuid] su a assms(1)
      by simp
    then show False using assms(2) by (simp add: error_response_sel)
  qed
  then obtain user where d: "data = Some user" "err = None" by auto
  have f: "filter (\<lambda>u. u_email u = filter_text to_text email) (users st) = [user]"
    using select_user_hit [of "filter_text to_text email" st user] su a d by simp
  have t1: "user_sessions st1 = user_sessions st" "users st1 = users st"
    using select_user_tables [of "filter_text to_text email" st] su by simp_all
  note run = login_looked_up [OF e p, of to_text st user st1 check now uuid]
  let ?row = "\<lparr>s_user_id = u_id user, s_session_token = uuid,
               s_device_id = or_null (body_device_id req), s_ip_address = ip req,
               s_user_agent = user_agent req, s_expires_at = now + 604800000,
               s_is_active = True\<rparr>"
  obtain b st2 where ins: "insert_session ?row st1 = (b, st2)"
    by (cases "insert_session ?row st1")
  have c: "bcrypt_compare check pw (u_password_hash user) = Some True"
    and dr: "date_in_range (now + 604800000)"
    using run su a d assms
    by (auto simp add: error_response_sel split: option.splits if_splits)
  from c obtain password hash where pw: "pw = JStr password"
    and h: "u_password_hash user = Some hash" "check password hash = Some True"
    using bcrypt_compare_Some [of check pw "u_password_hash user" True] by auto
  have ne: "password \<noteq> []" using p(2) pw by (simp add: falsy_value_def)
  have "\<exists>data. b = Returns data None"
    using run su a d assms c dr ins
    by (cases b) (auto simp add: error_response_sel split: option.splits)
  then obtain rowdata where b: "b = Returns rowdata None" by blast
  have r: "resp = \<lparr>status = 200,
                 body = JObj [(''success'', JBool True), (''token'', JStr uuid),
                              (''user'', user_projection user)]\<rparr>" and s: "st' = st2"
    using run su a d assms c dr ins b by auto
  have "user_sessions st2 = user_sessions st1 @ [?row] \<and> users st2 = users st1"
    using insert_session_shape [of ?row st1 rowdata st2] ins b by simp
  with e p pw ne f h dr r s t1 show ?thesis by simp
qed

subsection \<open>Login\<close>

text \<open>
  Claim C8. A \<open>POST /api/login\<close> whose body lacks the email or the password is answered
  with status 400 and the store is returned as it was: no call has been issued (the call
  record is unchanged) and no session has been created.
\<close>

theorem login_missing_field:
  assumes "body_email req = None \<or> body_password req = None"
  shows "login check to_text now uuid st req = (error_response 400 msg_fields_required, st)"
proof -
  have "falsy_value (body_email req) \<or> falsy_value (body_password req)"
    using assms falsy_value_absent by auto
  then show ?thesis by (rule login_rejected_fields)
qed

theorem login_missing_field_witness:
  "body_password (demo_request\<lparr>body_email := Some (JStr ''alice@example.com'')\<rparr>) = None
   \<and> login check_demo text_demo 5000 ''fresh'' demo_store
         (demo_request\<lparr>body_email := Some (JStr ''alice@example.com'')\<rparr>)
       = (error_response 400 msg_fields_required, demo_store)
   \<and> status (error_response 400 msg_fields_required) = 400"
  using login_missing_field [of "demo_request\<lparr>body_email := Some (JStr ''alice@example.com'')\<rparr>"
      check_demo text_demo 5000 "''fresh''" demo_store]
  by (simp add: demo_request_def error_response_sel)

text \<open>
  With a password that is a string, and stored hashes on which the hash computation
  gives an answer, the login does not tell an unknown email from a wrong password: when
  the lookup resolves and the password matches the hash of no user row with the
  submitted email (there may be none), the answer is the one response with status 401 and
  the body \<open>{ error: msg_invalid_credentials }\<close>.
\<close>

lemma login_string_password_generic:
  assumes "body_email req = Some email" and "\<not> falsy_value (Some email)"
    and "body_password req = Some (JStr password)" and "password \<noteq> []"
    and "next_fault st \<noteq> ThrowFault"
    and "\<forall>u\<in>set (users st). u_email u = filter_text to_text email \<longrightarrow>
           (\<exists>h. u_password_hash u = Some h \<and> check password h = Some False)"
  shows "fst (login check to_text now uuid st req) = error_response 401 msg_invalid_credentials"
proof -
  have p: "\<not> falsy_value (Some (JStr password))" using assms(4) by (simp add: falsy_value_def)
  obtain a st1 where su: "select_user (filter_text to_text email) st = (a, st1)"
    by (cases "select_user (filter_text to_text email) st")
  have "a \<noteq> Throws" using select_user_throws [of "filter_text to_text email" st] su assms(5) by simp
  then obtain data err where a: "a = Returns data err" by (cases a) auto
  from select_user_shape [of "filter_text to_text email" st data err] su a
  consider (hit) user where "err = None" "data = Some user"
      "filter (\<lambda>u. u_email u = filter_text to_text email) (users st) = [user]"
    | (miss) "err \<noteq> None" "data = None"
    by auto
  then show ?thesis
  proof cases
    case hit
    have "user \<in> set (filter (\<lambda>u. u_email u = filter_text to_text email) (users st))"
      using hit(3) by simp
    then obtain h where "u_password_hash user = Some h" "check password h = Some False"
      using assms(6) by auto
    then have "bcrypt_compare check (JStr password) (u_password_hash user) = Some False"
      by (simp add: bcrypt_compare_def)
    then show ?thesis
      using login_looked_up [OF assms(1,2,3) p, of to_text st user st1 check now uuid] su a hit
      by simp
  next
    case miss
    then show ?thesis
      using login_not_found [OF assms(1,2,3) p, of to_text st data err st1 check now uuid] su a
      by simp
  qed
qed

text \<open>
  Claim C4 at a concrete input. The body carries the number 12345678 as the password.
  With the email of a stored user, \<open>bcrypt.compare\<close> rejects its arguments and the
  answer is status 500; with an email no user has, the answer is status 401. The two
  responses differ, whatever the hash computation, the clock and the new token are.
\<close>

theorem login_numeric_password_tells_users:
  "fst (login check to_text now uuid demo_store numeric_password_request)
     = error_response 500 msg_internal
   \<and> fst (login check to_text now uuid demo_store numeric_password_unknown_request)
     = error_response 401 msg_invalid_credentials
   \<and> status (error_response 500 msg_internal) = 500
   \<and> status (error_response 401 msg_invalid_credentials) = 401"
  by (simp add: login_def select_user_def issue_def next_fault_def single_def
      falsy_value_def filter_text_def bcrypt_compare_def error_response_sel
      numeric_password_request_def numeric_password_unknown_request_def demo_defs)

text \<open>
  Claim C6. When the login answers with status 200, the submitted email selects exactly
  one user row, the submitted password is a string that matches that row's hash, and one
  session of that user has been stored. The body is the object with the three keys
  \<open>success\<close>, \<open>token\<close> and \<open>user\<close>: the token is the raw token of the stored
  session, and \<open>user\<close> is the object with exactly the keys \<open>id\<close>, \<open>email\<close>,
  \<open>full_name\<close> and \<open>subscription_type\<close> of the matched row. The password hash and
  any other column are no part of it.
\<close>

theorem login_response_sanitized:
  assumes "login check to_text now uuid st req = (resp, st')" and "status resp = 200"
  shows "\<exists>email password hash user session.
           body_email req = Some email
           \<and> body_password req = Some (JStr password)
           \<and> filter (\<lambda>u. u_email u = filter_text to_text email) (users st) = [user]
           \<and> u_password_hash user = Some hash \<and> check password hash = Some True
           \<and> user_sessions st' = user_sessions st @ [session]
           \<and> s_user_id session = u_id user
           \<and> s_session_token session = uuid
           \<and> resp =
               \<lparr>status = 200,
                body =
                  JObj [(''success'', JBool True),
                        (''token'', JStr (s_session_token session)),
                        (''user'', JObj [(''id'', JStr (u_id user)),
                                         (''email'', JStr (u_email user)),
                                         (''full_name'', opt_json (u_full_name user)),
                                         (''subscription_type'',
                                          opt_json (u_subscription_type user))])]\<rparr>"
proof -
  from login_success [OF assms] obtain email password hash user where
    e: "body_email req = Some email" and
    p: "body_password req = Some (JStr password)" and
    f: "filter (\<lambda>u. u_email u = filter_text to_text email) (users st) = [user]" and
    h: "u_password_hash user = Some hash" "check password hash = Some True" and
    r: "resp = \<lparr>status = 200,
                 body = JObj [(''success'', JBool True), (''token'', JStr uuid),
                              (''user'', user_projection user)]\<rparr>" and
    s: "user_sessions st' = user_sessions st @
             [\<lparr>s_user_id = u_id user, s_session_token = uuid,
               s_device_id = or_null (body_device_id req), s_ip_address = ip req,
               s_user_agent = user_agent req, s_expires_at = now + 604800000,
               s_is_active = True\<rparr>]"
    by blast
  let ?row = "\<lparr>s_user_id = u_id user, s_session_token = uuid,
               s_device_id = or_null (body_device_id req), s_ip_address = ip req,
               s_user_agent = user_agent req, s_expires_at = now + 604800000,
               s_is_active = True\<rparr>"
  have "user_sessions st' = user_sessions st @ [?row]" using s .
  moreover have "s_user_id ?row = u_id user" "s_session_token ?row = uuid" by simp_all
  moreover have "resp =
               \<lparr>status = 200,
                body =
                  JObj [(''success'', JBool True),
                        (''token'', JStr (s_session_token ?row)),
                        (''user'', JObj [(''id'', JStr (u_id user)),
                                         (''email'', JStr (u_email user)),
                                         (''full_name'', opt_json (u_full_name user)),
                                         (''subscription_type'',
                                          opt_json (u_subscription_type user))])]\<rparr>"
    using r by (simp add: user_projection_def)
  ultimately show ?thesis using e p f h by blast
qed

theorem login_response_sanitized_witness:
  "status (fst (login check_demo text_demo 5000 ''fresh'' demo_store good_login_request)) = 200
   \<and> (\<exists>email password hash user session.
           body_email good_login_request = Some email
           \<and> body_password good_login_request = Some (JStr password)
           \<and> filter (\<lambda>u. u_email u = filter_text text_demo email) (users demo_store) = [user]
           \<and> u_password_hash user = Some hash \<and> check_demo password hash = Some True
           \<and> user_sessions (snd (login check_demo text_demo 5000 ''fresh'' demo_store
                                  good_login_request))
               = user_sessions demo_store @ [session]
           \<and> s_user_id session = u_id user
           \<and> s_session_token session = ''fresh''
           \<and> fst (login check_demo text_demo 5000 ''fresh'' demo_store good_login_request) =
               \<lparr>status = 200,
                body =
                  JObj [(''success'', JBool True),
                        (''token'', JStr (s_session_token session)),
                        (''user'', JObj [(''id'', JStr (u_id user)),
                                         (''email'', JStr (u_email user)),
                                         (''full_name'', opt_json (u_full_name user)),
                                         (''subscription_type'',
                                          opt_json (u_subscription_type user))])]\<rparr>)
   \<and> fst (login check_demo text_demo 5000 ''fresh'' demo_store good_login_request) =
       \<lparr>status = 200,
        body = JObj [(''success'', JBool True),
                     (''token'', JStr ''fresh''),
                     (''user'', JObj [(''id'', JStr ''u-alice''),
                                      (''email'', JStr ''alice@example.com''),
                                      (''full_name'', JStr ''Alice''),
                                      (''subscription_type'', JStr ''pro'')])]\<rparr>"
proof -
  have run: "fst (login check_demo text_demo 5000 ''fresh'' demo_store good_login_request) =
       \<lparr>status = 200,
        body = JObj [(''success'', JBool True),
                     (''token'', JStr ''fresh''),
                     (''user'', JObj [(''id'', JStr ''u-alice''),
                                      (''email'', JStr ''alice@example.com''),
                                      (''full_name'', JStr ''Alice''),
                                      (''subscription_type'', JStr ''pro'')])]\<rparr>"
    by (simp add: login_def select_user_def insert_session_def issue_def next_fault_def
        single_def user_projection_def opt_json_def Let_def falsy_value_def filter_text_def
        bcrypt_compare_def date_in_range_def good_login_request_def demo_defs)
  then have ok: "status (fst (login check_demo text_demo 5000 ''fresh'' demo_store
                               good_login_request)) = 200"
    by simp
  from login_response_sanitized [of check_demo text_demo 5000 "''fresh''" demo_store
      good_login_request
      "fst (login check_demo text_demo 5000 ''fresh'' demo_store good_login_request)"
      "snd (login check_demo text_demo 5000 ''fresh'' demo_store good_login_request)", OF _ ok]
  have "\<exists>email password hash user session.
           body_email good_login_request = Some email
           \<and> body_password good_login_request = Some (JStr password)
           \<and> filter (\<lambda>u. u_email u = filter_text text_demo email) (users demo_store) = [user]
           \<and> u_password_hash user = Some hash \<and> check_demo password hash = Some True
           \<and> user_sessions (snd (login check_demo text_demo 5000 ''fresh'' demo_store
                                  good_login_request))
               = user_sessions demo_store @ [session]
           \<and> s_user_id session = u_id user
           \<and> s_session_token session = ''fresh''
           \<and> fst (login check_demo text_demo 5000 ''fresh'' demo_store good_login_request) =
               \<lparr>status = 200,
                body =
                  JObj [(''success'', JBool True),
                        (''token'', JStr (s_session_token session)),
                        (''user'', JObj [(''id'', JStr (u_id user)),
                                         (''email'', JStr (u_email user)),
                                         (''full_name'', opt_json (u_full_name user)),
                                         (''subscription_type'',
                                          opt_json (u_subscription_type user))])]\<rparr>"
    by simp
  with ok run show ?thesis by blast
qed

text \<open>
  Claim C7. When the login answers with status 200, the \<open>user_sessions\<close> table has grown
  by exactly one row, the new session, and its expiry instant is the issuance instant
  \<open>now\<close> plus 604800000 milliseconds, that is 7 days. Nothing of the request enters the
  expiry: the statement holds for every request.
\<close>

theorem login_session_expiry:
  assumes "login check to_text now uuid st req = (resp, st')" and "status resp = 200"
  shows "\<exists>session. user_sessions st' = user_sessions st @ [session]
           \<and> s_expires_at session = now + 7 * (24 * 60 * 60 * 1000)
           \<and> s_session_token session = uuid
           \<and> s_is_active session"
proof -
  from login_success [OF assms] obtain user :: user_row where
    "user_sessions st' = user_sessions st @
             [\<lparr>s_user_id = u_id user, s_session_token = uuid,
               s_device_id = or_null (body_device_id req), s_ip_address = ip req,
               s_user_agent = user_agent req, s_expires_at = now + 604800000,
               s_is_active = True\<rparr>]"
    by blast
  then show ?thesis by simp
qed

theorem login_session_expiry_witness:
  "status (fst (login check_demo text_demo 5000 ''fresh'' demo_store good_login_request)) = 200
   \<and> (\<exists>session.
         user_sessions (snd (login check_demo text_demo 5000 ''fresh'' demo_store
                               good_login_request))
           = user_sessions demo_store @ [session]
         \<and> s_expires_at session = 604805000
         \<and> s_session_token session = ''fresh''
         \<and> s_is_active session)"
proof -
  have run: "status (fst (login check_demo text_demo 5000 ''fresh'' demo_store
                            good_login_request)) = 200"
    by (simp add: login_def select_user_def insert_session_def issue_def next_fault_def
        single_def Let_def falsy_value_def filter_text_def bcrypt_compare_def
        date_in_range_def good_login_request_def demo_defs)
  from login_session_expiry [of check_demo text_demo 5000 "''fresh''" demo_store
      good_login_request
      "fst (login check_demo text_demo 5000 ''fresh'' demo_store good_login_request)"
      "snd (login check_demo text_demo 5000 ''fresh'' demo_store good_login_request)", OF _ this]
    run
  show ?thesis by simp
qed

subsection \<open>The two rejections of the authenticator\<close>

text \<open>
  Claim C2, as stated, fails: with no token the answer has status 401, with a token that
  matches no active session it has status 403.
\<close>

theorem auth_failures_distinguishable:
  "fst (authenticateToken demo_store demo_request)
     = Inl (error_response 401 msg_token_required)
   \<and> fst (authenticateToken demo_store foreign_token_request)
     = Inl (error_response 403 msg_token_invalid_or_expired)
   \<and> status (error_response 401 msg_token_required)
       \<noteq> status (error_response 403 msg_token_invalid_or_expired)"
  by (simp add: authenticateToken_def header_token_def select_session_def issue_def
      next_fault_def single_def error_response_def foreign_token_request_def demo_defs)

lemma authenticateToken_unmatched:
  assumes "header_token (authorization req) = Some token" and "token \<noteq> []"
    and "filter (\<lambda>s. s_session_token s = token \<and> s_is_active s = True) (user_sessions st) = []"
  shows "fst (authenticateToken st req) =
           Inl (error_response 403
                  (if next_fault st = ThrowFault then msg_token_invalid
                   else msg_token_invalid_or_expired))"
  using assms
  by (cases "next_fault st")
     (simp_all add: authenticateToken_def select_session_def issue_def single_def)

lemma messages_differ:
  "msg_token_required \<noteq> msg_token_invalid_or_expired"
  "msg_token_required \<noteq> msg_token_invalid"
  by (simp_all add: msg_token_required_def msg_token_invalid_or_expired_def msg_token_invalid_def)

text \<open>
  Claim C2, amended. A request without a token is answered with status 401 and the body
  \<open>{ error: msg_token_required }\<close>. A request whose token matches no active session is
  answered with status 403 and the body \<open>{ error: msg_token_invalid_or_expired }\<close>
  (\<open>{ error: msg_token_invalid }\<close> when the store call throws). The two responses have
  the same shape, an object with the single key \<open>error\<close> holding a string, and differ in
  the status and in the message.
\<close>

theorem auth_failure_shape:
  "(falsy (header_token (authorization req))
      \<longrightarrow> fst (authenticateToken st req)
            = Inl \<lparr>status = 401, body = JObj [(''error'', JStr msg_token_required)]\<rparr>)
   \<and> (header_token (authorization req) = Some token \<and> token \<noteq> []
        \<and> filter (\<lambda>s. s_session_token s = token \<and> s_is_active s = True) (user_sessions st) = []
      \<longrightarrow> fst (authenticateToken st req)
            = Inl \<lparr>status = 403,
                   body = JObj [(''error'',
                                 JStr (if next_fault st = ThrowFault then msg_token_invalid
                                       else msg_token_invalid_or_expired))]\<rparr>)
   \<and> msg_token_required \<noteq> msg_token_invalid_or_expired
   \<and> msg_token_required \<noteq> msg_token_invalid"
proof (intro conjI impI)
  assume "falsy (header_token (authorization req))"
  then show "fst (authenticateToken st req)
            = Inl \<lparr>status = 401, body = JObj [(''error'', JStr msg_token_required)]\<rparr>"
    using authenticateToken_missing [of req st] by (simp add: error_response_def)
next
  assume "header_token (authorization req) = Some token \<and> token \<noteq> []
        \<and> filter (\<lambda>s. s_session_token s = token \<and> s_is_active s = True) (user_sessions st) = []"
  then show "fst (authenticateToken st req)
            = Inl \<lparr>status = 403,
                   body = JObj [(''error'',
                                 JStr (if next_fault st = ThrowFault then msg_token_invalid
                                       else msg_token_invalid_or_expired))]\<rparr>"
    using authenticateToken_unmatched [of req token st] by (simp add: error_response_def)
qed (rule messages_differ)+

theorem auth_failure_shape_witness:
  "falsy (header_token (authorization demo_request))
   \<and> fst (authenticateToken demo_store demo_request)
       = Inl \<lparr>status = 401, body = JObj [(''error'', JStr msg_token_required)]\<rparr>
   \<and> header_token (authorization foreign_token_request) = Some ''not-a-session''
   \<and> filter (\<lambda>s. s_session_token s = ''not-a-session'' \<and> s_is_active s = True)
        (user_sessions demo_store) = []
   \<and> fst (authenticateToken demo_store foreign_token_request)
       = Inl \<lparr>status = 403, body = JObj [(''error'', JStr msg_token_invalid_or_expired)]\<rparr>
   \<and> msg_token_required \<noteq> msg_token_invalid_or_expired"
proof -
  have fa: "falsy (header_token (authorization demo_request))"
    by (simp add: falsy_def header_token_def demo_defs)
  have tb: "header_token (authorization foreign_token_request) = Some ''not-a-session''"
    by (simp add: header_token_def foreign_token_request_def demo_defs)
  have fb: "filter (\<lambda>s. s_session_token s = ''not-a-session'' \<and> s_is_active s = True)
        (user_sessions demo_store) = []"
    by (simp add: demo_defs)
  have nf: "next_fault demo_store = NoFault" by (simp add: next_fault_def demo_defs)
  from auth_failure_shape [of demo_request demo_store "''not-a-session''"] fa
  have a: "fst (authenticateToken demo_store demo_request)
       = Inl \<lparr>status = 401, body = JObj [(''error'', JStr msg_token_required)]\<rparr>"
    and d: "msg_token_required \<noteq> msg_token_invalid_or_expired"
    by simp_all
  from auth_failure_shape [of foreign_token_request demo_store "''not-a-session''"] tb fb nf
  have b: "fst (authenticateToken demo_store foreign_token_request)
       = Inl \<lparr>status = 403, body = JObj [(''error'', JStr msg_token_invalid_or_expired)]\<rparr>"
    by simp
  from fa a tb fb b d show ?thesis by simp
qed

subsection \<open>Process start\<close>

lemma createClient_absent:
  "falsy supabaseUrl \<or> falsy supabaseKey \<Longrightarrow> \<not> createClient accepts supabaseUrl supabaseKey"
  by (auto simp add: createClient_def falsy_def split: option.splits)

lemma start_process_guard:
  "falsy (SUPABASE_URL env) \<or> falsy (SUPABASE_ANON_KEY env) \<Longrightarrow>
     start_process accepts env = Exited 1"
  by (simp add: start_process_def Let_def)

lemma start_process_service_key:
  "\<not> falsy (SUPABASE_URL env) \<Longrightarrow> \<not> falsy (SUPABASE_ANON_KEY env) \<Longrightarrow>
   falsy (SUPABASE_SERVICE_ROLE_KEY env) \<Longrightarrow>
     start_process accepts env = Uncaught"
  using createClient_absent [of "SUPABASE_URL env" "SUPABASE_SERVICE_ROLE_KEY env" accepts]
  by (simp add: start_process_def Let_def)

lemma start_process_listens:
  "start_process accepts env = Listening \<longleftrightarrow>
     createClient accepts (SUPABASE_URL env) (SUPABASE_ANON_KEY env)
     \<and> createClient accepts (SUPABASE_URL env) (SUPABASE_SERVICE_ROLE_KEY env)"
  using createClient_absent [of "SUPABASE_URL env" "SUPABASE_ANON_KEY env" accepts]
  by (auto simp add: start_process_def Let_def)

text \<open>
  Claim C3. When the store URL, the public key or the service key is absent from the
  environment, the process does not come to listen: it ends with status 1. For the URL
  and the public key that is the guard's \<open>process.exit(1)\<close>; for the service key it is
  the exception that \<open>createClient\<close> throws on the undefined key at line 24, which
  nothing catches.
\<close>

theorem start_process_refuses:
  assumes "SUPABASE_URL env = None \<or> SUPABASE_ANON_KEY env = None
           \<or> SUPABASE_SERVICE_ROLE_KEY env = None"
  shows "start_process accepts env \<noteq> Listening
         \<and> exit_status (start_process accepts env) = Some 1
         \<and> start_process accepts env
             = (if SUPABASE_URL env = None \<or> SUPABASE_URL env = Some []
                   \<or> SUPABASE_ANON_KEY env = None \<or> SUPABASE_ANON_KEY env = Some []
                then Exited 1 else Uncaught)"
proof (cases "falsy (SUPABASE_URL env) \<or> falsy (SUPABASE_ANON_KEY env)")
  case True
  then have "start_process accepts env = Exited 1" by (rule start_process_guard)
  moreover have "SUPABASE_URL env = None \<or> SUPABASE_URL env = Some []
                   \<or> SUPABASE_ANON_KEY env = None \<or> SUPABASE_ANON_KEY env = Some []"
    using True by (auto simp add: falsy_def split: option.splits)
  ultimately show ?thesis by (simp add: exit_status_def)
next
  case False
  then have n: "\<not> falsy (SUPABASE_URL env)" "\<not> falsy (SUPABASE_ANON_KEY env)" by simp_all
  then have "SUPABASE_URL env \<noteq> None" "SUPABASE_ANON_KEY env \<noteq> None"
    by (auto simp add: falsy_def split: option.splits)
  then have "falsy (SUPABASE_SERVICE_ROLE_KEY env)" using assms by (auto simp add: falsy_def)
  then have "start_process accepts env = Uncaught"
    using start_process_service_key [OF n] by simp
  moreover have "\<not> (SUPABASE_URL env = None \<or> SUPABASE_URL env = Some []
                   \<or> SUPABASE_ANON_KEY env = None \<or> SUPABASE_ANON_KEY env = Some [])"
    using n by (auto simp add: falsy_def split: option.splits)
  ultimately show ?thesis by (simp add: exit_status_def)
qed

theorem start_process_refuses_witness:
  "SUPABASE_SERVICE_ROLE_KEY demo_environment = None
   \<and> start_process (\<lambda>url key. True) demo_environment = Uncaught
   \<and> exit_status (start_process (\<lambda>url key. True) demo_environment) = Some 1
   \<and> SUPABASE_URL (demo_environment\<lparr>SUPABASE_URL := None\<rparr>) = None
   \<and> start_process (\<lambda>url key. True) (demo_environment\<lparr>SUPABASE_URL := None\<rparr>) = Exited 1
   \<and> start_process (\<lambda>url key. True) full_environment = Listening"
proof -
  have k: "SUPABASE_SERVICE_ROLE_KEY demo_environment = None"
    by (simp add: demo_environment_def)
  have u: "SUPABASE_URL (demo_environment\<lparr>SUPABASE_URL := None\<rparr>) = None" by simp
  have l: "start_process (\<lambda>url key. True) full_environment = Listening"
    by (simp add: start_process_def createClient_def falsy_def Let_def
        full_environment_def demo_environment_def)
  from start_process_refuses [of demo_environment "\<lambda>url key. True"] k
  have a: "start_process (\<lambda>url key. True) demo_environment = Uncaught"
    "exit_status (start_process (\<lambda>url key. True) demo_environment) = Some 1"
    by (simp_all add: demo_environment_def exit_status_def)
  from start_process_refuses [of "demo_environment\<lparr>SUPABASE_URL := None\<rparr>" "\<lambda>url key. True"] u
  have b: "start_process (\<lambda>url key. True) (demo_environment\<lparr>SUPABASE_URL := None\<rparr>) = Exited 1"
    by (simp add: exit_status_def)
  from k a u b l show ?thesis by simp
qed

end
